theory Spec2Isabelle
  imports Main "HOL-Library.Char_ord" "HOL-Library.List_Lexorder" "HOL-Library.AList"
begin

section \<open>Values, exceptions and observable effects\<close>

text \<open>
  The handlers work on parsed JSON: the Slack request body, the view, the notification
  event and the modal documents are Python values built from \<open>dict\<close>, \<open>list\<close>,
  \<open>str\<close>, \<open>int\<close>, \<open>bool\<close> and \<open>None\<close>. A \<open>dict\<close> is an association list
  (insertion order is kept, as in Python); a \<open>str\<close> is its UTF-8 byte sequence.
  JSON numbers are restricted to integers.
\<close>

datatype json =
    JNull
  | JBool bool
  | JInt int
  | JStr string
  | JArr "json list"
  | JObj "(string \<times> json) list"

datatype exn_class =
    KeyError | TypeError | AttributeError | ValueError
  | ClientError | SlackApiError | JSONDecodeError | OSError | OtherException

text \<open>
  An exception object: its class, \<open>str(e)\<close>, the Slack error code
  \<open>e.response['error']\<close> (read only for a \<open>SlackApiError\<close>) and the traceback that
  \<open>exc_info=True\<close> makes the logger write.
\<close>

record exn =
  exn_class :: exn_class
  exn_str :: string
  exn_response_error :: string
  exn_traceback :: "string list"

definition raise_exn :: "exn_class \<Rightarrow> string \<Rightarrow> exn" where
  "raise_exn c s = \<lparr>exn_class = c, exn_str = s, exn_response_error = [], exn_traceback = []\<rparr>"

text \<open>
  Library functions of the Python runtime that the source calls and that are not part of
  the repository: \<open>json.dumps\<close> and \<open>str()\<close> on a value that is not already a
  \<open>str\<close>.
\<close>

record pylib =
  dumps :: "json \<Rightarrow> string"
  str_of :: "json \<Rightarrow> string"

text \<open>What an f-string writes for \<open>{v}\<close>: a \<open>str\<close> is copied as it is.\<close>

fun py_str :: "pylib \<Rightarrow> json \<Rightarrow> string" where
  "py_str lib (JStr s) = s"
| "py_str lib v = str_of lib v"

text \<open>Python truthiness, as \<open>not v\<close> and \<open>if v\<close> read it.\<close>

fun truthy :: "json \<Rightarrow> bool" where
  "truthy JNull = False"
| "truthy (JBool b) = b"
| "truthy (JInt n) = (n \<noteq> 0)"
| "truthy (JStr s) = (s \<noteq> [])"
| "truthy (JArr xs) = (xs \<noteq> [])"
| "truthy (JObj kvs) = (kvs \<noteq> [])"

text \<open>
  \<open>d[k]\<close> with a string key: \<open>KeyError\<close> on a dict without the key, \<open>TypeError\<close> on
  a value that is not a dict. \<open>str(KeyError(k))\<close> is the key in quotes; the wording
  of the interpreter's own \<open>TypeError\<close> and \<open>AttributeError\<close> messages is shortened.
\<close>

fun get_item :: "json \<Rightarrow> string \<Rightarrow> exn + json" where
  "get_item (JObj kvs) k =
     (case map_of kvs k of
        None \<Rightarrow> Inl (raise_exn KeyError ([CHR 0x27] @ k @ [CHR 0x27]))
      | Some v \<Rightarrow> Inr v)"
| "get_item (JStr s) k = Inl (raise_exn TypeError ''string indices must be integers'')"
| "get_item (JArr xs) k = Inl (raise_exn TypeError ''list indices must be integers or slices, not str'')"
| "get_item v k = Inl (raise_exn TypeError ''object is not subscriptable'')"

text \<open>\<open>d.get(k, default)\<close>: only a dict has the method.\<close>

fun dict_get :: "json \<Rightarrow> string \<Rightarrow> json \<Rightarrow> exn + json" where
  "dict_get (JObj kvs) k d = (case map_of kvs k of None \<Rightarrow> Inr d | Some v \<Rightarrow> Inr v)"
| "dict_get v k d = Inl (raise_exn AttributeError ''object has no attribute get'')"

datatype level = INFO | WARNING | ERROR

record env_var =
  var_name :: string
  var_value :: json
  var_type :: string

text \<open>
  Everything a handler does besides returning: log lines (with the exception attached
  when \<open>exc_info=True\<close>), metrics, the acknowledgement sent to Slack with its keyword
  arguments, and the calls to the chat platform and to the build service.
\<close>

datatype effect =
    Log level string "exn option"
  | Metric string
  | MetricMetadata string json
  | Ack "(string \<times> json) list"
  | PostMessage json "json option" json
  | ViewsOpen json json
  | StartBuild string "env_var list"

fun is_post :: "effect \<Rightarrow> bool" where
  "is_post (PostMessage c t m) = True"
| "is_post e = False"

fun is_start_build :: "effect \<Rightarrow> bool" where
  "is_start_build (StartBuild p vs) = True"
| "is_start_build e = False"

section \<open>The notifier (slack_notifier/main.py)\<close>

text \<open>
  The outside world of the notifier: what fetching the secret and building the
  \<open>WebClient\<close> raises (if anything), and what \<open>chat_postMessage\<close> answers for a
  channel, an optional thread and a text.
\<close>

record notifier_env =
  client_init :: "exn option"
  chat_post :: "json \<Rightarrow> json option \<Rightarrow> json \<Rightarrow> exn + json"

text \<open>
  \<open>get_slack_client\<close>: the module-level \<open>_slack_client\<close> is the boolean state
  (initialised or not). A \<open>ClientError\<close> is logged and raised again, any other exception
  passes through.
\<close>

definition get_slack_client ::
  "notifier_env \<Rightarrow> bool \<Rightarrow> (exn + unit) \<times> effect list \<times> bool" where
  "get_slack_client env cached =
     (if cached then (Inr (), [], True)
      else case client_init env of
        None \<Rightarrow> (Inr (), [Log INFO ''Slack client initialized'' None], True)
      | Some e \<Rightarrow>
          if exn_class e = ClientError
          then (Inl e, [Log ERROR (''Failed to get Slack credentials: '' @ exn_str e) None], False)
          else (Inl e, [], False))"

definition post_and_report ::
  "pylib \<Rightarrow> notifier_env \<Rightarrow> json \<Rightarrow> json option \<Rightarrow> json \<Rightarrow> string \<Rightarrow> string
     \<Rightarrow> (exn + json) \<times> effect list" where
  "post_and_report lib env channel thread message sent_log sent_metric =
     (case chat_post env channel thread message of
        Inr data \<Rightarrow>
          (Inr data,
           [PostMessage channel thread message,
            Log INFO (sent_log @ py_str lib channel) None,
            Metric sent_metric])
      | Inl e \<Rightarrow>
          if exn_class e = SlackApiError
          then (Inl e,
                [PostMessage channel thread message,
                 Log ERROR (''Slack API error: '' @ exn_response_error e) None,
                 Metric ''SlackApiError''])
          else (Inl e, [PostMessage channel thread message]))"

definition send_direct_message ::
  "pylib \<Rightarrow> notifier_env \<Rightarrow> bool \<Rightarrow> json \<Rightarrow> json \<Rightarrow> (exn + json) \<times> effect list \<times> bool" where
  "send_direct_message lib env cached user_id message =
     (case get_slack_client env cached of
        (Inl e, fx, cached') \<Rightarrow> (Inl e, fx, cached')
      | (Inr u, fx, cached') \<Rightarrow>
          (case post_and_report lib env user_id None message
                  ''Message sent to user '' ''DirectMessageSent'' of
             (r, fx') \<Rightarrow> (r, fx @ fx', cached')))"

definition send_thread_reply ::
  "pylib \<Rightarrow> notifier_env \<Rightarrow> bool \<Rightarrow> json \<Rightarrow> json \<Rightarrow> json
     \<Rightarrow> (exn + json) \<times> effect list \<times> bool" where
  "send_thread_reply lib env cached channel thread_ts message =
     (case get_slack_client env cached of
        (Inl e, fx, cached') \<Rightarrow> (Inl e, fx, cached')
      | (Inr u, fx, cached') \<Rightarrow>
          (case post_and_report lib env channel (Some thread_ts) message
                  ''Thread reply sent to channel '' ''ThreadReplySent'' of
             (r, fx') \<Rightarrow> (r, fx @ fx', cached')))"

record response =
  statusCode :: nat
  body :: string

definition error_body :: "pylib \<Rightarrow> string \<Rightarrow> string" where
  "error_body lib s = dumps lib (JObj [(''error'', JStr s)])"

text \<open>
  The body of the \<open>try\<close> block of \<open>lambda_handler\<close>: \<open>Inl\<close> is an exception that
  reaches the \<open>except Exception\<close> clause, \<open>Inr\<close> a response returned from inside the
  block.
\<close>

definition notify_body ::
  "pylib \<Rightarrow> notifier_env \<Rightarrow> bool \<Rightarrow> json \<Rightarrow> (exn + response) \<times> effect list \<times> bool" where
  "notify_body lib env cached event =
     (case dict_get event ''notification_type'' (JStr ''direct-message'') of
        Inl e \<Rightarrow> (Inl e, [], cached)
      | Inr notification_type \<Rightarrow>
     (case dict_get event ''message'' (JStr '''') of
        Inl e \<Rightarrow> (Inl e, [], cached)
      | Inr message \<Rightarrow>
      if \<not> truthy message then
        (Inr \<lparr>statusCode = 400, body = error_body lib ''Message is required''\<rparr>,
         [Log ERROR ''No message provided'' None], cached)
      else
        let sent = (\<lambda>(r, fx, cached').
              case r of
                Inl e \<Rightarrow> (Inl e, fx, cached')
              | Inr data \<Rightarrow>
                  (Inr \<lparr>statusCode = 200,
                        body = dumps lib (JObj [(''message'', JStr ''Notification sent''),
                                                (''response'', data)])\<rparr>,
                   fx @ [Log INFO ''Notification sent successfully'' None], cached'))
        in
        if notification_type = JStr ''direct-message'' then
          (case dict_get event ''user_id'' JNull of
             Inl e \<Rightarrow> (Inl e, [], cached)
           | Inr user_id \<Rightarrow>
               if \<not> truthy user_id then
                 (Inr \<lparr>statusCode = 400,
                       body = error_body lib ''user_id is required for direct messages''\<rparr>,
                  [Log ERROR ''No user_id provided for direct message'' None], cached)
               else sent (send_direct_message lib env cached user_id message))
        else if notification_type = JStr ''in-thread'' then
          (case dict_get event ''channel'' JNull of
             Inl e \<Rightarrow> (Inl e, [], cached)
           | Inr channel \<Rightarrow>
          (case dict_get event ''thread_ts'' JNull of
             Inl e \<Rightarrow> (Inl e, [], cached)
           | Inr thread_ts \<Rightarrow>
               if \<not> truthy channel \<or> \<not> truthy thread_ts then
                 (Inr \<lparr>statusCode = 400,
                       body = error_body lib ''channel and thread_ts required for thread replies''\<rparr>,
                  [Log ERROR ''Missing channel or thread_ts for thread reply'' None], cached)
               else sent (send_thread_reply lib env cached channel thread_ts message)))
        else
          (Inr \<lparr>statusCode = 400,
                body = error_body lib
                         (''Invalid notification_type: '' @ py_str lib notification_type)\<rparr>,
           [Log ERROR (''Invalid notification type: '' @ py_str lib notification_type) None],
           cached)))"

text \<open>
  \<open>lambda_handler\<close> of the notifier: the first log line is written before the \<open>try\<close>;
  every exception of the block becomes a 500 response carrying \<open>str(e)\<close>.
\<close>

definition notifier_lambda_handler ::
  "pylib \<Rightarrow> notifier_env \<Rightarrow> bool \<Rightarrow> json \<Rightarrow> response \<times> effect list \<times> bool" where
  "notifier_lambda_handler lib env cached event =
     (let start = Log INFO (''Processing notification: '' @ dumps lib event) None in
      case notify_body lib env cached event of
        (Inr resp, fx, cached') \<Rightarrow> (resp, start # fx, cached')
      | (Inl e, fx, cached') \<Rightarrow>
          (\<lparr>statusCode = 500, body = error_body lib (exn_str e)\<rparr>,
           start # fx @ [Log ERROR (''Error sending notification: '' @ exn_str e) (Some e),
                         Metric ''NotificationError''],
           cached'))"

section \<open>The action registry (slack_bot/blocks.py)\<close>

text \<open>
  The file system as \<open>load_actions\<close> sees it. Every call that asks the file system can
  raise an \<open>OSError\<close> (\<open>Path.exists\<close> and \<open>Path.is_dir\<close> answer \<open>False\<close> for a
  missing path only and re-raise, for instance, a permission error), so each observation
  is either an exception or a value:
  \<^item> \<open>dir_exists\<close>: \<open>actions_dir.exists()\<close>;
  \<^item> \<open>listing\<close>: the entries that \<open>actions_dir.iterdir()\<close> yields, in its order;
  \<^item> \<open>entry_is_dir\<close>: \<open>action_path.is_dir()\<close>;
  \<^item> \<open>modal_json\<close>: \<open>modal_file.exists()\<close> and, for a file that exists, what
    opening and parsing it gives (\<open>Inr None\<close> when the file does not exist).
  Only opening and parsing stand inside the \<open>try\<close> of the loop.
\<close>

datatype file_read = ReadOk json | ReadFails exn

record dir_entry =
  entry_name :: string
  entry_is_dir :: "exn + bool"
  modal_json :: "exn + file_read option"

record file_system =
  actions_dir :: string
  dir_exists :: "exn + bool"
  listing :: "exn + dir_entry list"

type_synonym registry = "(string \<times> json) list"

text \<open>\<open>name.startswith((".", "_"))\<close>\<close>

fun hidden_name :: "string \<Rightarrow> bool" where
  "hidden_name [] = False"
| "hidden_name (c # cs) = (c = CHR ''.'' \<or> c = CHR ''_'')"

text \<open>
  One round of the loop over the directory entries; \<open>Inl\<close> is an exception that leaves
  \<open>load_actions\<close>. \<open>is_dir\<close> is asked first, the name is looked at only for a
  directory, and \<open>exists\<close> only for a directory that is not hidden.
  \<open>actions[name] = modal_data\<close> is \<open>AList.update\<close>: an existing key keeps its place
  and takes the new value, a new key goes to the end. Both \<open>except\<close> clauses only log.
\<close>

definition load_entry ::
  "string \<Rightarrow> dir_entry \<Rightarrow> registry \<Rightarrow> (exn + registry) \<times> effect list" where
  "load_entry dir e actions =
     (case entry_is_dir e of
        Inl x \<Rightarrow> (Inl x, [])
      | Inr is_dir \<Rightarrow>
          if \<not> is_dir \<or> hidden_name (entry_name e) then (Inr actions, [])
          else case modal_json e of
            Inl x \<Rightarrow> (Inl x, [])
          | Inr None \<Rightarrow>
              (Inr actions,
               [Log WARNING (''No modal.json found for action: '' @ entry_name e) None])
          | Inr (Some (ReadOk modal_data)) \<Rightarrow>
              (Inr (AList.update (entry_name e) modal_data actions),
               [Log INFO (''Loaded action: '' @ entry_name e) None])
          | Inr (Some (ReadFails x)) \<Rightarrow>
              if exn_class x = JSONDecodeError
              then (Inr actions,
                    [Log ERROR (''Invalid JSON in '' @ dir @ ''/'' @ entry_name e
                                  @ ''/modal.json: '' @ exn_str x) None])
              else (Inr actions,
                    [Log ERROR (''Error loading action '' @ entry_name e @ '': ''
                                  @ exn_str x) None]))"

fun load_loop ::
  "string \<Rightarrow> dir_entry list \<Rightarrow> registry \<Rightarrow> (exn + registry) \<times> effect list" where
  "load_loop dir [] actions = (Inr actions, [])"
| "load_loop dir (e # es) actions =
     (case load_entry dir e actions of
        (Inl x, fx) \<Rightarrow> (Inl x, fx)
      | (Inr actions', fx) \<Rightarrow>
          (case load_loop dir es actions' of (r, fx') \<Rightarrow> (r, fx @ fx')))"

definition load_actions :: "pylib \<Rightarrow> file_system \<Rightarrow> (exn + registry) \<times> effect list" where
  "load_actions lib fs =
     (case dir_exists fs of
        Inl x \<Rightarrow> (Inl x, [])
      | Inr False \<Rightarrow>
          (Inr [], [Log WARNING (''Actions directory not found: '' @ actions_dir fs) None])
      | Inr True \<Rightarrow>
          (case listing fs of
             Inl x \<Rightarrow> (Inl x, [])
           | Inr entries \<Rightarrow>
               (case load_loop (actions_dir fs) entries [] of
                  (Inl x, fx) \<Rightarrow> (Inl x, fx)
                | (Inr actions, fx) \<Rightarrow>
                    (Inr actions,
                     fx @ [Log INFO (''Loaded '' @ py_str lib (JInt (int (length actions)))
                                       @ '' actions'') None]))))"

text \<open>
  \<open>action_data = load_actions()\<close> runs when the module is imported; the handlers below
  take the registry it returned.
\<close>

section \<open>The dialog controller and the job trigger (slack_bot/main.py)\<close>

text \<open>
  The outside world of the bot: the \<open>BOT_NAME\<close> environment variable, what
  \<open>chat_postMessage(channel, text)\<close> and \<open>views_open(trigger_id, view)\<close> raise (if
  anything), and what CodeBuild's \<open>start_build\<close> answers for a project name and a list
  of environment variables.
\<close>

record bot_env =
  bot_name :: "string option"
  bot_post :: "json \<Rightarrow> json \<Rightarrow> exn option"
  views_open :: "json \<Rightarrow> json \<Rightarrow> exn option"
  start_build :: "string \<Rightarrow> env_var list \<Rightarrow> exn + json"

text \<open>
  Sequencing of calls that may raise and that leave effects behind: the effects of both
  steps are kept in order, and the second step does not run after an exception.
\<close>

definition bind_fx ::
  "(exn + 'a) \<times> effect list \<Rightarrow> ('a \<Rightarrow> (exn + 'b) \<times> effect list) \<Rightarrow> (exn + 'b) \<times> effect list" where
  "bind_fx m f =
     (case m of
        (Inl e, fx) \<Rightarrow> (Inl e, fx)
      | (Inr x, fx) \<Rightarrow> (case f x of (r, fx') \<Rightarrow> (r, fx @ fx')))"

definition pure_fx :: "exn + 'a \<Rightarrow> (exn + 'a) \<times> effect list" where
  "pure_fx r = (r, [])"

definition emit :: "effect list \<Rightarrow> (exn + unit) \<times> effect list" where
  "emit fx = (Inr (), fx)"

definition call_fx :: "effect \<Rightarrow> exn option \<Rightarrow> (exn + unit) \<times> effect list" where
  "call_fx c outcome = (case outcome of None \<Rightarrow> (Inr (), [c]) | Some e \<Rightarrow> (Inl e, [c]))"

definition check_mark :: string where
  "check_mark = [CHR 0xE2, CHR 0x9C, CHR 0x85]"

definition cross_mark :: string where
  "cross_mark = [CHR 0xE2, CHR 0x9D, CHR 0x8C]"

definition rocket :: string where
  "rocket = [CHR 0xF0, CHR 0x9F, CHR 0x9A, CHR 0x80]"

definition plain_text :: "string \<Rightarrow> json" where
  "plain_text s = JObj [(''type'', JStr ''plain_text''), (''text'', JStr s)]"

text \<open>
  The option list of the selection form: one option per key, keys sorted. \<open>sorted\<close>
  compares strings by code point; on UTF-8 bytes the lexicographic order is the same.
\<close>

definition action_option :: "string \<Rightarrow> json" where
  "action_option action_name =
     JObj [(''text'', plain_text action_name), (''value'', JStr action_name)]"

definition modal_options :: "registry \<Rightarrow> json list" where
  "modal_options action_data = map action_option (sort (map fst action_data))"

definition modal_view :: "registry \<Rightarrow> json" where
  "modal_view action_data =
     JObj [(''type'', JStr ''modal''),
           (''callback_id'', JStr ''initial_modal''),
           (''title'', plain_text ''Senora Self-Service''),
           (''submit'', plain_text ''Next''),
           (''close'', plain_text ''Cancel''),
           (''blocks'', JArr [
              JObj [(''type'', JStr ''section''),
                    (''text'', JObj [(''type'', JStr ''mrkdwn''),
                                     (''text'', JStr ''Select an action to perform:'')])],
              JObj [(''type'', JStr ''input''),
                    (''block_id'', JStr ''action_select_block''),
                    (''element'', JObj [
                       (''type'', JStr ''static_select''),
                       (''action_id'', JStr ''action_select''),
                       (''placeholder'', plain_text ''Choose an action...''),
                       (''options'', JArr (modal_options action_data))]),
                    (''label'', plain_text ''Action'')]])]"

definition open_modal :: "bot_env \<Rightarrow> registry \<Rightarrow> json \<Rightarrow> (exn + unit) \<times> effect list" where
  "open_modal env action_data trigger_id =
     call_fx (ViewsOpen trigger_id (modal_view action_data))
             (views_open env trigger_id (modal_view action_data))"

text \<open>
  \<open>create_action_modal\<close> on values: \<open>action_data[action_name]\<close> raises \<open>KeyError\<close>,
  \<open>.copy()\<close> exists on a dict and on a list only, and the item assignment with a string
  key works on a dict only.
\<close>

definition create_action_modal :: "registry \<Rightarrow> string \<Rightarrow> exn + json" where
  "create_action_modal action_data action_name =
     (case get_item (JObj action_data) action_name of
        Inl e \<Rightarrow> Inl e
      | Inr (JObj kvs) \<Rightarrow>
          Inr (JObj (AList.update ''private_metadata'' (JStr action_name)
                      (AList.update ''callback_id'' (JStr ''updated_modal'') kvs)))
      | Inr (JArr xs) \<Rightarrow> Inl (raise_exn TypeError ''list indices must be integers or slices, not str'')
      | Inr v \<Rightarrow> Inl (raise_exn AttributeError ''object has no attribute copy''))"

text \<open>
  \<open>selected_action not in action_data\<close>: the keys are strings, a list or a dict is not
  hashable, anything else is simply not a key. So a value found in the registry is a
  \<open>str\<close>, and \<open>py_str\<close> hands that string to \<open>create_action_modal\<close>.
\<close>

fun in_registry :: "registry \<Rightarrow> json \<Rightarrow> exn + bool" where
  "in_registry action_data (JStr s) = Inr (s \<in> set (map fst action_data))"
| "in_registry action_data (JArr xs) = Inl (raise_exn TypeError ''unhashable type: list'')"
| "in_registry action_data (JObj kvs) = Inl (raise_exn TypeError ''unhashable type: dict'')"
| "in_registry action_data v = Inr False"

definition errors_ack :: "string \<Rightarrow> effect" where
  "errors_ack s =
     Ack [(''response_action'', JStr ''errors''),
          (''errors'', JObj [(''action_select_block'', JStr s)])]"

definition bind_exn :: "exn + 'a \<Rightarrow> ('a \<Rightarrow> exn + 'b) \<Rightarrow> exn + 'b" where
  "bind_exn r f = (case r of Inl e \<Rightarrow> Inl e | Inr x \<Rightarrow> f x)"

definition selected_value :: "json \<Rightarrow> exn + json" where
  "selected_value view =
     bind_exn (get_item view ''state'') (\<lambda>a.
     bind_exn (get_item a ''values'') (\<lambda>b.
     bind_exn (get_item b ''action_select_block'') (\<lambda>c.
     bind_exn (get_item c ''action_select'') (\<lambda>d.
     bind_exn (get_item d ''selected_option'') (\<lambda>f.
     get_item f ''value'')))))"

text \<open>The \<open>try\<close> block of \<open>handle_initial_modal_submission\<close>.\<close>

definition initial_try :: "pylib \<Rightarrow> registry \<Rightarrow> json \<Rightarrow> (exn + unit) \<times> effect list" where
  "initial_try lib action_data view =
     bind_fx (pure_fx (selected_value view)) (\<lambda>selected_action.
     bind_fx (emit [Log INFO (''Action selected: '' @ py_str lib selected_action) None]) (\<lambda>_.
     bind_fx (pure_fx (in_registry action_data selected_action)) (\<lambda>known.
       if \<not> known then
         emit [Log ERROR (''Invalid action selected: '' @ py_str lib selected_action) None,
               errors_ack ''Invalid action selected'']
       else
         bind_fx (pure_fx (create_action_modal action_data (py_str lib selected_action))) (\<lambda>v.
           emit [Ack [(''response_action'', JStr ''update''), (''view'', v)],
                 Metric ''ActionFormDisplayed'']))))"

definition handle_initial_modal_submission :: "pylib \<Rightarrow> registry \<Rightarrow> json \<Rightarrow> effect list" where
  "handle_initial_modal_submission lib action_data view =
     Metric ''InitialModalSubmitted'' #
     (case initial_try lib action_data view of
        (Inr u, fx) \<Rightarrow> fx
      | (Inl e, fx) \<Rightarrow>
          fx @ [Log ERROR (''Error handling initial modal: '' @ exn_str e) (Some e),
                Metric ''InitialModalError'',
                errors_ack ''An error occurred. Please try again.''])"

text \<open>
  \<open>handle_slash_command\<close> (the request body is \<open>req_body\<close> here and below): the
  error notice is best effort.
\<close>

definition handle_slash_command :: "bot_env \<Rightarrow> registry \<Rightarrow> json \<Rightarrow> effect list" where
  "handle_slash_command env action_data req_body =
     [Ack [], Metric ''SlashCommandReceived''] @
     (case bind_fx (pure_fx (get_item req_body ''trigger_id'')) (open_modal env action_data) of
        (Inr u, fx) \<Rightarrow> fx @ [Metric ''ModalOpened'']
      | (Inl e, fx) \<Rightarrow>
          fx @ [Log ERROR (''Error opening modal: '' @ exn_str e) (Some e),
                Metric ''ModalOpenError''] @
          (case get_item req_body ''user_id'' of
             Inl e' \<Rightarrow> []
           | Inr user_id \<Rightarrow>
               [PostMessage user_id None
                  (JStr (cross_mark @ '' Sorry, I encountered an error. Please try again later.''))]))"

text \<open>
  \<open>execute_action\<close>. The arguments of \<open>start_build\<close> are evaluated in the order they
  are written, before the call; an exception there is not a \<open>ClientError\<close> and leaves
  the function unlogged. After the call, \<open>response["build"]\<close> and \<open>build_info['id']\<close>
  (read for the log line) may raise as well.
\<close>

definition project_name :: "pylib \<Rightarrow> bot_env \<Rightarrow> json \<Rightarrow> string" where
  "project_name lib env action_name =
     (case bot_name env of None \<Rightarrow> ''senora'' | Some b \<Rightarrow> b) @ ''-'' @ py_str lib action_name"

definition plaintext_var :: "string \<Rightarrow> json \<Rightarrow> env_var" where
  "plaintext_var n v = \<lparr>var_name = n, var_value = v, var_type = ''PLAINTEXT''\<rparr>"

definition build_variables :: "pylib \<Rightarrow> json \<Rightarrow> exn + env_var list" where
  "build_variables lib request_body =
     bind_exn (dict_get request_body ''trigger_id'' (JStr [])) (\<lambda>trigger_id.
     bind_exn (get_item request_body ''user'') (\<lambda>user.
     bind_exn (get_item user ''id'') (\<lambda>user_id.
     bind_exn (get_item request_body ''user'') (\<lambda>user'.
     bind_exn (get_item user' ''name'') (\<lambda>user_name.
       Inr [plaintext_var ''REQUEST_BODY'' (JStr (dumps lib request_body)),
            plaintext_var ''TRIGGER_ID'' trigger_id,
            plaintext_var ''USER_ID'' user_id,
            plaintext_var ''USER_NAME'' user_name])))))"

definition execute_action ::
  "pylib \<Rightarrow> bot_env \<Rightarrow> json \<Rightarrow> json \<Rightarrow> (exn + json) \<times> effect list" where
  "execute_action lib env action_name request_body =
     (let project = project_name lib env action_name in
      bind_fx (emit [Log INFO (''Starting CodeBuild project: '' @ project) None]) (\<lambda>_.
      bind_fx (pure_fx (build_variables lib request_body)) (\<lambda>vars.
        case start_build env project vars of
          Inl e \<Rightarrow>
            if exn_class e = ClientError
            then (Inl e,
                  [StartBuild project vars,
                   Log ERROR (''Failed to start CodeBuild project: '' @ exn_str e) (Some e),
                   Metric ''CodeBuildStartError''])
            else (Inl e, [StartBuild project vars])
        | Inr response \<Rightarrow>
            bind_fx (emit [StartBuild project vars]) (\<lambda>_.
            bind_fx (pure_fx (get_item response ''build'')) (\<lambda>build_info.
            bind_fx (pure_fx (get_item build_info ''id'')) (\<lambda>build_id.
            bind_fx (emit [Log INFO (''Build started successfully: '' @ py_str lib build_id) None])
              (\<lambda>_. pure_fx (Inr build_info))))))))"

definition received_text :: "pylib \<Rightarrow> json \<Rightarrow> string" where
  "received_text lib action_name =
     check_mark @ '' Your request for *'' @ py_str lib action_name
       @ ''* has been received and is being processed...''"

definition running_text :: "pylib \<Rightarrow> json \<Rightarrow> json \<Rightarrow> string" where
  "running_text lib action_name build_id =
     rocket @ '' *'' @ py_str lib action_name @ ''* is now running!'' @ [CHR 0x0A]
       @ ''Build ID: `'' @ py_str lib build_id @ ''`'' @ [CHR 0x0A]
       @ ''You'' @ [CHR 0x27] @ ''ll be notified when it completes.''"

definition failed_text :: "exn \<Rightarrow> string" where
  "failed_text e =
     cross_mark @ '' Failed to execute action: '' @ exn_str e @ [CHR 0x0A]
       @ ''Please contact support if this continues.''"

definition post_fx :: "bot_env \<Rightarrow> json \<Rightarrow> string \<Rightarrow> (exn + unit) \<times> effect list" where
  "post_fx env channel txt =
     call_fx (PostMessage channel None (JStr txt)) (bot_post env channel (JStr txt))"

text \<open>The \<open>try\<close> block of \<open>handle_updated_modal_submission\<close>.\<close>

definition final_try :: "pylib \<Rightarrow> bot_env \<Rightarrow> json \<Rightarrow> json \<Rightarrow> (exn + unit) \<times> effect list" where
  "final_try lib env req_body view =
     bind_fx (pure_fx (get_item view ''private_metadata'')) (\<lambda>action_name.
     bind_fx (pure_fx (bind_exn (get_item req_body ''user'') (\<lambda>u. get_item u ''id''))) (\<lambda>user_id.
     bind_fx (emit [Log INFO (''Executing action: '' @ py_str lib action_name
                              @ '' for user: '' @ py_str lib user_id) None]) (\<lambda>_.
     bind_fx (post_fx env user_id (received_text lib action_name)) (\<lambda>_.
     bind_fx (execute_action lib env action_name req_body) (\<lambda>build_info.
     bind_fx (pure_fx (get_item build_info ''id'')) (\<lambda>build_id.
     bind_fx (post_fx env user_id (running_text lib action_name build_id)) (\<lambda>_.
       emit [Metric ''ActionExecuted'', MetricMetadata ''action_name'' action_name])))))))"

text \<open>
  \<open>handle_updated_modal_submission\<close>: acknowledge first; any exception of the block is
  logged with its traceback, and the user is sent \<open>failed_text\<close>, which carries
  \<open>str(e)\<close>. The notice is best effort: when the user id cannot be read nothing is
  posted, and a failing post is ignored.
\<close>

definition handle_updated_modal_submission ::
  "pylib \<Rightarrow> bot_env \<Rightarrow> json \<Rightarrow> json \<Rightarrow> effect list" where
  "handle_updated_modal_submission lib env req_body view =
     [Ack [], Metric ''FinalModalSubmitted''] @
     (case final_try lib env req_body view of
        (Inr u, fx) \<Rightarrow> fx
      | (Inl e, fx) \<Rightarrow>
          fx @ [Log ERROR (''Error executing action: '' @ exn_str e) (Some e),
                Metric ''ActionExecutionError''] @
          (case bind_exn (get_item req_body ''user'') (\<lambda>u. get_item u ''id'') of
             Inl e' \<Rightarrow> []
           | Inr user_id \<Rightarrow> [PostMessage user_id None (JStr (failed_text e))]))"

section \<open>create_action_modal on a store\<close>

text \<open>
  The registry holds references: every loaded template is an object of its own, and
  \<open>action_data\<close> maps a name to the address of its template. \<open>.copy()\<close> allocates a new
  object with the same top-level items (the nested values are shared and never written
  by this code), and the two item assignments write to the new object.
\<close>

type_synonym addr = nat

record store_result =
  outcome :: "exn + addr"
  heap :: "json list"

text \<open>\<open>obj[k] = v\<close> on the object at an address; only a dict takes a string key.\<close>

definition set_item :: "json list \<Rightarrow> addr \<Rightarrow> string \<Rightarrow> json \<Rightarrow> exn + json list" where
  "set_item h a k v =
     (case h ! a of
        JObj m \<Rightarrow> Inr (h[a := JObj (AList.update k v m)])
      | w \<Rightarrow> Inl (raise_exn TypeError ''object does not support item assignment''))"

text \<open>\<open>obj.copy()\<close>: a new object at the next free address; a dict or a list has it.\<close>

definition copy_object :: "json list \<Rightarrow> addr \<Rightarrow> exn + (addr \<times> json list)" where
  "copy_object h a =
     (case h ! a of
        JObj m \<Rightarrow> Inr (length h, h @ [JObj m])
      | JArr xs \<Rightarrow> Inr (length h, h @ [JArr xs])
      | w \<Rightarrow> Inl (raise_exn AttributeError ''object has no attribute copy''))"

definition create_action_modal_store ::
  "(string \<times> addr) list \<Rightarrow> json list \<Rightarrow> string \<Rightarrow> store_result" where
  "create_action_modal_store action_refs h action_name =
     (case map_of action_refs action_name of
        None \<Rightarrow>
          \<lparr>outcome = Inl (raise_exn KeyError ([CHR 0x27] @ action_name @ [CHR 0x27])), heap = h\<rparr>
      | Some a \<Rightarrow>
          (case copy_object h a of
             Inl e \<Rightarrow> \<lparr>outcome = Inl e, heap = h\<rparr>
           | Inr (action_modal, h1) \<Rightarrow>
               (case set_item h1 action_modal ''callback_id'' (JStr ''updated_modal'') of
                  Inl e \<Rightarrow> \<lparr>outcome = Inl e, heap = h1\<rparr>
                | Inr h2 \<Rightarrow>
                    (case set_item h2 action_modal ''private_metadata'' (JStr action_name) of
                       Inl e \<Rightarrow> \<lparr>outcome = Inl e, heap = h2\<rparr>
                     | Inr h3 \<Rightarrow> \<lparr>outcome = Inr action_modal, heap = h3\<rparr>))))"

text \<open>The registry of values that a store with its references stands for.\<close>

definition registry_of :: "(string \<times> addr) list \<Rightarrow> json list \<Rightarrow> registry" where
  "registry_of action_refs h = map (\<lambda>(n, a). (n, h ! a)) action_refs"

section \<open>Observations and sample inputs\<close>

text \<open>
  Readings of a handler's result (its status, the messages it posted, the builds it
  started, the options of the form it opened), and concrete inputs on which the
  definitions above can be run: a runtime library, outside worlds that answer or fail, a
  directory with one unparsable document, and Slack payloads.
\<close>

definition sample_lib :: pylib where
  "sample_lib = \<lparr>dumps = (\<lambda>v. ''<json>''), str_of = (\<lambda>v. ''<value>'')\<rparr>"

definition sample_notifier_env :: notifier_env where
  "sample_notifier_env =
     \<lparr>client_init = None, chat_post = (\<lambda>c t m. Inr (JObj [(''ok'', JBool True)]))\<rparr>"

definition handler_status :: "response \<times> effect list \<times> bool \<Rightarrow> nat" where
  "handler_status r = statusCode (fst r)"

definition handler_effects :: "response \<times> effect list \<times> bool \<Rightarrow> effect list" where
  "handler_effects r = fst (snd r)"

definition select_options :: "json \<Rightarrow> json list option" where
  "select_options view =
     (case view of
        JObj kvs \<Rightarrow>
          (case map_of kvs ''blocks'' of
             Some (JArr [section_block, JObj input_block]) \<Rightarrow>
               (case map_of input_block ''element'' of
                  Some (JObj element) \<Rightarrow>
                    (case map_of element ''options'' of Some (JArr opts) \<Rightarrow> Some opts | _ \<Rightarrow> None)
                | _ \<Rightarrow> None)
           | _ \<Rightarrow> None)
      | _ \<Rightarrow> None)"

definition restart_entry :: dir_entry where
  "restart_entry =
     \<lparr>entry_name = ''restart'', entry_is_dir = Inr True,
      modal_json = Inr (Some (ReadOk (JObj [(''type'', JStr ''modal'')])))\<rparr>"

definition broken_entry :: dir_entry where
  "broken_entry =
     \<lparr>entry_name = ''broken'', entry_is_dir = Inr True,
      modal_json = Inr (Some (ReadFails
        (raise_exn JSONDecodeError ''Expecting value: line 1 column 1 (char 0)'')))\<rparr>"

definition deploy_entry :: dir_entry where
  "deploy_entry =
     \<lparr>entry_name = ''deploy'', entry_is_dir = Inr True,
      modal_json = Inr (Some (ReadOk (JObj [(''type'', JStr ''modal''),
                                            (''callback_id'', JStr ''x'')])))\<rparr>"

text \<open>An action directory without search permission: \<open>modal_file.exists()\<close> raises.\<close>

definition permission_denied :: exn where
  "permission_denied = raise_exn OSError ''[Errno 13] Permission denied''"

definition locked_entry :: dir_entry where
  "locked_entry =
     \<lparr>entry_name = ''locked'', entry_is_dir = Inr True, modal_json = Inl permission_denied\<rparr>"

definition sample_entries :: "dir_entry list" where
  "sample_entries = [restart_entry, broken_entry, deploy_entry]"

definition sample_fs :: file_system where
  "sample_fs =
     \<lparr>actions_dir = ''/var/task/actions'', dir_exists = Inr True, listing = Inr sample_entries\<rparr>"

definition sample_registry :: registry where
  "sample_registry = (case fst (load_actions sample_lib sample_fs) of Inr r \<Rightarrow> r | Inl x \<Rightarrow> [])"

text \<open>
  An entry the loop gets past without an exception: \<open>is_dir\<close> answers, and for a
  directory that is not hidden \<open>exists\<close> answers as well.
\<close>

definition stat_ok :: "dir_entry \<Rightarrow> bool" where
  "stat_ok e =
     (case entry_is_dir e of
        Inl x \<Rightarrow> False
      | Inr is_dir \<Rightarrow>
          (if is_dir \<and> \<not> hidden_name (entry_name e)
           then (case modal_json e of Inl x \<Rightarrow> False | Inr m \<Rightarrow> True)
           else True))"

definition sample_heap :: "json list" where
  "sample_heap = map snd sample_registry"

definition sample_refs :: "(string \<times> addr) list" where
  "sample_refs = [(''restart'', 0), (''deploy'', 1)]"

text \<open>The line that \<open>load_entry\<close> logs for a document it could not read or parse.\<close>

definition read_error_line :: "string \<Rightarrow> dir_entry \<Rightarrow> exn \<Rightarrow> effect" where
  "read_error_line dir b x =
     (if exn_class x = JSONDecodeError
      then Log ERROR (''Invalid JSON in '' @ dir @ ''/'' @ entry_name b @ ''/modal.json: ''
                        @ exn_str x) None
      else Log ERROR (''Error loading action '' @ entry_name b @ '': '' @ exn_str x) None)"

definition sample_bot_env :: bot_env where
  "sample_bot_env =
     \<lparr>bot_name = None,
      bot_post = (\<lambda>c t. None),
      views_open = (\<lambda>t v. None),
      start_build = (\<lambda>p vs. Inr (JObj [(''build'', JObj [(''id'', JStr (p @ '':1''))])]))\<rparr>"

definition denied_error :: exn where
  "denied_error =
     \<lparr>exn_class = ClientError,
      exn_str = ''An error occurred (AccessDeniedException) when calling the StartBuild operation: User: arn:aws:sts::123456789012:assumed-role/senora-bot/senora is not authorized to perform: codebuild:StartBuild'',
      exn_response_error = [],
      exn_traceback = [''File main.py, line 365, in execute_action'']\<rparr>"

definition missing_project_error :: exn where
  "missing_project_error =
     \<lparr>exn_class = ClientError,
      exn_str = ''An error occurred (ResourceNotFoundException) when calling the StartBuild operation: Project cannot be found'',
      exn_response_error = [],
      exn_traceback = [''File main.py, line 365, in execute_action'']\<rparr>"

definition failing_bot_env :: "exn \<Rightarrow> bot_env" where
  "failing_bot_env e =
     \<lparr>bot_name = None,
      bot_post = (\<lambda>c t. None),
      views_open = (\<lambda>t v. None),
      start_build = (\<lambda>p vs. Inl e)\<rparr>"

definition sample_body :: json where
  "sample_body =
     JObj [(''type'', JStr ''view_submission''),
           (''trigger_id'', JStr ''T1''),
           (''user'', JObj [(''id'', JStr ''U1''), (''name'', JStr ''dana'')])]"

text \<open>A request body whose user has no \<open>name\<close>.\<close>

definition nameless_body :: json where
  "nameless_body =
     JObj [(''type'', JStr ''view_submission''),
           (''trigger_id'', JStr ''T1''),
           (''user'', JObj [(''id'', JStr ''U1'')])]"

definition final_view :: "string \<Rightarrow> json" where
  "final_view token =
     JObj [(''callback_id'', JStr ''updated_modal''), (''private_metadata'', JStr token)]"

definition selection_view :: "string \<Rightarrow> json" where
  "selection_view choice =
     JObj [(''state'', JObj [(''values'', JObj [(''action_select_block'',
       JObj [(''action_select'', JObj [(''selected_option'',
         JObj [(''value'', JStr choice)])])])])])]"

text \<open>The variables that \<open>build_variables\<close> yields once its four reads have succeeded.\<close>

definition job_variables :: "pylib \<Rightarrow> json \<Rightarrow> json \<Rightarrow> json \<Rightarrow> json \<Rightarrow> env_var list" where
  "job_variables lib request_body trigger_id user_id user_name =
     [plaintext_var ''REQUEST_BODY'' (JStr (dumps lib request_body)),
      plaintext_var ''TRIGGER_ID'' trigger_id,
      plaintext_var ''USER_ID'' user_id,
      plaintext_var ''USER_NAME'' user_name]"

definition posts :: "effect list \<Rightarrow> effect list" where
  "posts fx = filter is_post fx"

definition builds :: "effect list \<Rightarrow> effect list" where
  "builds fx = filter is_start_build fx"

section \<open>Properties\<close>

subsection \<open>Sequencing\<close>

lemma bind_fx_pure [simp]:
  "bind_fx (pure_fx (Inr x)) f = f x"
  "bind_fx (pure_fx (Inl e)) f = (Inl e, [])"
  by (simp_all add: bind_fx_def pure_fx_def split: prod.splits)

lemma bind_fx_pair [simp]:
  "bind_fx (Inr x, fx) f = (fst (f x), fx @ snd (f x))"
  "bind_fx (Inl e, fx) f = (Inl e, fx)"
  by (simp_all add: bind_fx_def split: prod.splits)

lemma bind_fx_emit [simp]: "bind_fx (emit fx) f = (fst (f ()), fx @ snd (f ()))"
  by (simp add: bind_fx_def emit_def split: prod.splits)

lemma bind_exn_simps [simp]:
  "bind_exn (Inr x) g = g x"
  "bind_exn (Inl e) g = Inl e"
  by (simp_all add: bind_exn_def)

lemma posts_append [simp]: "posts (xs @ ys) = posts xs @ posts ys"
  by (simp add: posts_def)

lemma builds_append [simp]: "builds (xs @ ys) = builds xs @ builds ys"
  by (simp add: builds_def)

lemma posts_Cons [simp]:
  "posts (PostMessage c t m # xs) = PostMessage c t m # posts xs"
  "posts (Log l s x # xs) = posts xs"
  "posts (Metric n # xs) = posts xs"
  "posts (MetricMetadata n v # xs) = posts xs"
  "posts (Ack kw # xs) = posts xs"
  "posts (StartBuild p vs # xs) = posts xs"
  "posts [] = []"
  by (simp_all add: posts_def)

lemma builds_Cons [simp]:
  "builds (StartBuild p vs # xs) = StartBuild p vs # builds xs"
  "builds (Log l s x # xs) = builds xs"
  "builds (Metric n # xs) = builds xs"
  "builds (MetricMetadata n v # xs) = builds xs"
  "builds (Ack kw # xs) = builds xs"
  "builds (PostMessage c t m # xs) = builds xs"
  "builds [] = []"
  by (simp_all add: builds_def)

subsection \<open>The notifier\<close>

text \<open>
  Claim C6. A notification event of type \<open>in-thread\<close> in which \<open>channel\<close> or
  \<open>thread_ts\<close> is missing is answered with status 400; no \<open>chat_postMessage\<close> call
  is made and the client is not even initialised. This holds whatever the message is: an
  empty or missing message is rejected one step earlier, with status 400 as well.
\<close>

theorem in_thread_without_target_is_rejected:
  assumes "map_of kvs ''notification_type'' = Some (JStr ''in-thread'')"
    and "map_of kvs ''channel'' = None \<or> map_of kvs ''thread_ts'' = None"
  shows "handler_status (notifier_lambda_handler lib env cached (JObj kvs)) = 400
       \<and> filter is_post (handler_effects (notifier_lambda_handler lib env cached (JObj kvs))) = []
       \<and> snd (snd (notifier_lambda_handler lib env cached (JObj kvs))) = cached"
  using assms
  by (auto simp: notifier_lambda_handler_def notify_body_def handler_status_def
        handler_effects_def split: option.splits)

text \<open>The event \<open>{"notification_type": "in-thread", "message": "done"}\<close>.\<close>

theorem in_thread_without_target_is_rejected_witness:
  "map_of [(''notification_type'', JStr ''in-thread''), (''message'', JStr ''done'')]
       ''notification_type'' = Some (JStr ''in-thread'')
   \<and> map_of [(''notification_type'', JStr ''in-thread''), (''message'', JStr ''done'')]
       ''channel'' = None
   \<and> handler_status (notifier_lambda_handler sample_lib sample_notifier_env False
        (JObj [(''notification_type'', JStr ''in-thread''), (''message'', JStr ''done'')])) = 400
   \<and> filter is_post (handler_effects (notifier_lambda_handler sample_lib sample_notifier_env False
        (JObj [(''notification_type'', JStr ''in-thread''), (''message'', JStr ''done'')]))) = []"
  using in_thread_without_target_is_rejected
    [of "[(''notification_type'', JStr ''in-thread''), (''message'', JStr ''done'')]"
        sample_lib sample_notifier_env False]
  by simp

text \<open>
  Claim C7. A notification event whose \<open>notification_type\<close> is present and is neither
  \<open>direct-message\<close> nor \<open>in-thread\<close> is answered with status 400 and no
  \<open>chat_postMessage\<close> call is made.
\<close>

theorem unknown_notification_type_is_rejected:
  assumes "map_of kvs ''notification_type'' = Some t"
    and "t \<noteq> JStr ''direct-message''" and "t \<noteq> JStr ''in-thread''"
  shows "handler_status (notifier_lambda_handler lib env cached (JObj kvs)) = 400
       \<and> filter is_post (handler_effects (notifier_lambda_handler lib env cached (JObj kvs))) = []
       \<and> snd (snd (notifier_lambda_handler lib env cached (JObj kvs))) = cached"
  using assms
  by (auto simp: notifier_lambda_handler_def notify_body_def handler_status_def
        handler_effects_def split: option.splits)

text \<open>The event \<open>{"notification_type": "bogus", "message": "x", "user_id": "U1"}\<close>.\<close>

theorem unknown_notification_type_is_rejected_witness:
  "map_of [(''notification_type'', JStr ''bogus''), (''message'', JStr ''x''), (''user_id'', JStr ''U1'')]
       ''notification_type'' = Some (JStr ''bogus'')
   \<and> JStr ''bogus'' \<noteq> JStr ''direct-message'' \<and> JStr ''bogus'' \<noteq> JStr ''in-thread''
   \<and> handler_status (notifier_lambda_handler sample_lib sample_notifier_env False
        (JObj [(''notification_type'', JStr ''bogus''), (''message'', JStr ''x''),
               (''user_id'', JStr ''U1'')])) = 400
   \<and> filter is_post (handler_effects (notifier_lambda_handler sample_lib sample_notifier_env False
        (JObj [(''notification_type'', JStr ''bogus''), (''message'', JStr ''x''),
               (''user_id'', JStr ''U1'')]))) = []"
  using unknown_notification_type_is_rejected
    [of "[(''notification_type'', JStr ''bogus''), (''message'', JStr ''x''), (''user_id'', JStr ''U1'')]"
        "JStr ''bogus''" sample_lib sample_notifier_env False]
  by simp

text \<open>
  Claim C9. An event without \<open>notification_type\<close> is handled as a direct message: the
  \<open>try\<close> block runs exactly as for the same event with
  \<open>notification_type = "direct-message"\<close>. With a non-empty message, a truthy
  \<open>user_id\<close> is never answered with 400: once the client is available exactly one
  message is posted to that user, and the status is 200 when the post succeeds. Without
  \<open>user_id\<close> the answer is 400 with the text that asks for it.
\<close>

theorem missing_type_means_direct_message:
  assumes "map_of kvs ''notification_type'' = None"
    and "map_of kvs ''message'' = Some m" and "truthy m"
  shows "notify_body lib env cached (JObj kvs)
           = notify_body lib env cached (JObj ((''notification_type'', JStr ''direct-message'') # kvs))
       \<and> (\<forall>u. map_of kvs ''user_id'' = Some u \<and> truthy u \<longrightarrow>
             handler_status (notifier_lambda_handler lib env cached (JObj kvs)) \<noteq> 400
           \<and> (cached \<or> client_init env = None \<longrightarrow>
                filter is_post (handler_effects (notifier_lambda_handler lib env cached (JObj kvs)))
                  = [PostMessage u None m]
              \<and> (\<forall>d. chat_post env u None m = Inr d \<longrightarrow>
                    handler_status (notifier_lambda_handler lib env cached (JObj kvs)) = 200)))
       \<and> (map_of kvs ''user_id'' = None \<longrightarrow>
             fst (notifier_lambda_handler lib env cached (JObj kvs))
               = \<lparr>statusCode = 400,
                  body = error_body lib ''user_id is required for direct messages''\<rparr>
           \<and> filter is_post (handler_effects (notifier_lambda_handler lib env cached (JObj kvs))) = [])"
  using assms
  by (auto simp: notifier_lambda_handler_def notify_body_def handler_status_def
        handler_effects_def send_direct_message_def get_slack_client_def post_and_report_def
        split: option.splits sum.splits prod.splits)

text \<open>The event \<open>{"user_id": "U1", "message": "hi"}\<close>.\<close>

theorem missing_type_means_direct_message_witness:
  "map_of [(''user_id'', JStr ''U1''), (''message'', JStr ''hi'')] ''notification_type'' = None
   \<and> map_of [(''user_id'', JStr ''U1''), (''message'', JStr ''hi'')] ''message'' = Some (JStr ''hi'')
   \<and> truthy (JStr ''hi'')
   \<and> handler_status (notifier_lambda_handler sample_lib sample_notifier_env False
        (JObj [(''user_id'', JStr ''U1''), (''message'', JStr ''hi'')])) = 200
   \<and> filter is_post (handler_effects (notifier_lambda_handler sample_lib sample_notifier_env False
        (JObj [(''user_id'', JStr ''U1''), (''message'', JStr ''hi'')])))
       = [PostMessage (JStr ''U1'') None (JStr ''hi'')]"
  using missing_type_means_direct_message
    [of "[(''user_id'', JStr ''U1''), (''message'', JStr ''hi'')]" "JStr ''hi''"
        sample_lib sample_notifier_env False]
  by (simp add: sample_notifier_env_def)

subsection \<open>Loading the registry\<close>

lemma load_entry_failed_read:
  "entry_is_dir b = Inr True \<Longrightarrow> \<not> hidden_name (entry_name b)
     \<Longrightarrow> modal_json b = Inr (Some (ReadFails x))
     \<Longrightarrow> load_entry dir b acc = (Inr acc, [read_error_line dir b x])"
  by (simp add: load_entry_def read_error_line_def)

lemma load_entry_valid:
  "entry_is_dir e = Inr True \<Longrightarrow> \<not> hidden_name (entry_name e)
     \<Longrightarrow> modal_json e = Inr (Some (ReadOk d))
     \<Longrightarrow> load_entry dir e acc
           = (Inr (AList.update (entry_name e) d acc),
              [Log INFO (''Loaded action: '' @ entry_name e) None])"
  by (simp add: load_entry_def)

lemma load_entry_stat_ok:
  "stat_ok e \<Longrightarrow> \<exists>a fx. load_entry dir e acc = (Inr a, fx)"
  by (auto simp: stat_ok_def load_entry_def split: sum.splits option.splits file_read.splits
        if_splits)

lemma load_entry_other_key:
  "load_entry dir e acc = (Inr a, fx) \<Longrightarrow> n \<noteq> entry_name e \<Longrightarrow> map_of a n = map_of acc n"
  by (auto simp: load_entry_def update_conv' split: sum.splits option.splits file_read.splits
        if_splits)

lemma load_entry_distinct:
  "load_entry dir e acc = (Inr a, fx) \<Longrightarrow> distinct (map fst acc) \<Longrightarrow> distinct (map fst a)"
  by (auto simp: load_entry_def distinct_update split: sum.splits option.splits
        file_read.splits if_splits)

lemma load_loop_Cons_Inr:
  assumes "load_loop dir (e # es) acc = (Inr reg, fx)"
  obtains a fx1 fx2 where "load_entry dir e acc = (Inr a, fx1)"
    and "load_loop dir es a = (Inr reg, fx2)" and "fx = fx1 @ fx2"
  using assms by (auto split: prod.splits sum.splits)

lemma load_loop_append:
  "load_loop dir (xs @ ys) acc =
     (case load_loop dir xs acc of
        (Inl x, fx) \<Rightarrow> (Inl x, fx)
      | (Inr a, fx) \<Rightarrow> (case load_loop dir ys a of (r, fx') \<Rightarrow> (r, fx @ fx')))"
  by (induction xs arbitrary: acc) (auto split: prod.splits sum.splits)

lemma load_loop_returns:
  "list_all stat_ok es \<Longrightarrow> \<exists>reg fx. load_loop dir es acc = (Inr reg, fx)"
proof (induction es arbitrary: acc)
  case Nil
  then show ?case by simp
next
  case (Cons e es)
  then obtain a fx1 where e: "load_entry dir e acc = (Inr a, fx1)"
    using load_entry_stat_ok [of e dir acc] by auto
  from Cons obtain reg fx2 where "load_loop dir es a = (Inr reg, fx2)"
    by fastforce
  with e show ?case by simp
qed

lemma load_loop_other_key:
  "load_loop dir es acc = (Inr reg, fx) \<Longrightarrow> n \<notin> entry_name ` set es
     \<Longrightarrow> map_of reg n = map_of acc n"
proof (induction es arbitrary: acc fx)
  case Nil
  then show ?case by simp
next
  case (Cons e es)
  from Cons.prems(1) obtain a fx1 fx2 where e: "load_entry dir e acc = (Inr a, fx1)"
    and rest: "load_loop dir es a = (Inr reg, fx2)"
    by (rule load_loop_Cons_Inr)
  from Cons.prems(2) have "n \<noteq> entry_name e" and "n \<notin> entry_name ` set es" by auto
  with Cons.IH [OF rest] load_entry_other_key [OF e] show ?case by simp
qed

lemma load_loop_valid:
  "load_loop dir es acc = (Inr reg, fx) \<Longrightarrow> distinct (map entry_name es) \<Longrightarrow> e \<in> set es
     \<Longrightarrow> entry_is_dir e = Inr True \<Longrightarrow> \<not> hidden_name (entry_name e)
     \<Longrightarrow> modal_json e = Inr (Some (ReadOk d))
     \<Longrightarrow> map_of reg (entry_name e) = Some d"
proof (induction es arbitrary: acc fx)
  case Nil
  then show ?case by simp
next
  case (Cons a es)
  from Cons.prems(1) obtain acc' fx1 fx2 where first: "load_entry dir a acc = (Inr acc', fx1)"
    and rest: "load_loop dir es acc' = (Inr reg, fx2)"
    by (rule load_loop_Cons_Inr)
  show ?case
  proof (cases "e = a")
    case True
    with Cons.prems have "entry_name e \<notin> entry_name ` set es" by auto
    with rest have "map_of reg (entry_name e) = map_of acc' (entry_name e)"
      by (rule load_loop_other_key)
    moreover from True first Cons.prems(4-6)
    have "acc' = AList.update (entry_name e) d acc"
      by (simp add: load_entry_valid)
    ultimately show ?thesis by (simp add: update_conv')
  next
    case False
    with Cons.prems have "e \<in> set es" and "distinct (map entry_name es)" by auto
    with Cons.IH [OF rest] Cons.prems(4-6) show ?thesis by simp
  qed
qed

lemma load_loop_distinct:
  "load_loop dir es acc = (Inr reg, fx) \<Longrightarrow> distinct (map fst acc) \<Longrightarrow> distinct (map fst reg)"
proof (induction es arbitrary: acc fx)
  case Nil
  then show ?case by simp
next
  case (Cons e es)
  from Cons.prems(1) obtain a fx1 fx2 where e: "load_entry dir e acc = (Inr a, fx1)"
    and rest: "load_loop dir es a = (Inr reg, fx2)"
    by (rule load_loop_Cons_Inr)
  from load_entry_distinct [OF e Cons.prems(2)] Cons.IH [OF rest] show ?case by simp
qed

text \<open>What \<open>load_actions\<close> returns is a dict: no name occurs twice.\<close>

lemma load_actions_distinct:
  assumes "fst (load_actions lib fs) = Inr reg"
  shows "distinct (map fst reg)"
proof -
  consider "reg = []"
    | es fx where "load_loop (actions_dir fs) es [] = (Inr reg, fx)"
    using assms
    by (auto simp: load_actions_def split: sum.splits bool.splits prod.splits if_splits)
  then show ?thesis
  proof cases
    case 1
    then show ?thesis by simp
  next
    case 2
    then show ?thesis by (rule load_loop_distinct) simp
  qed
qed

lemma sample_registry_value:
  "sample_registry = [(''restart'', JObj [(''type'', JStr ''modal'')]),
      (''deploy'', JObj [(''type'', JStr ''modal''), (''callback_id'', JStr ''x'')])]"
  by (simp add: sample_registry_def load_actions_def sample_fs_def sample_entries_def
        restart_entry_def broken_entry_def deploy_entry_def load_entry_def raise_exn_def)

text \<open>
  Claim C8 as stated does not hold: the load can abort. \<open>exists\<close>, \<open>iterdir\<close> and
  \<open>is_dir\<close> are called outside the \<open>try\<close>, so an entry whose \<open>modal.json\<close> cannot be
  looked at (its directory refuses the search) ends \<open>load_actions\<close> with the
  \<open>OSError\<close>, and the valid \<open>deploy\<close> that follows is not loaded.
\<close>

theorem unreachable_document_aborts_load:
  "modal_json locked_entry = Inl permission_denied
   \<and> modal_json deploy_entry
       = Inr (Some (ReadOk (JObj [(''type'', JStr ''modal''), (''callback_id'', JStr ''x'')])))
   \<and> load_actions sample_lib
        \<lparr>actions_dir = ''/var/task/actions'', dir_exists = Inr True,
         listing = Inr [restart_entry, locked_entry, deploy_entry]\<rparr>
       = (Inl permission_denied, [Log INFO ''Loaded action: restart'' None])"
  by (simp add: load_actions_def load_entry_def locked_entry_def restart_entry_def
        deploy_entry_def)

text \<open>
  Claim C8, amended. Take a directory that exists and can be listed, in which \<open>is_dir\<close>
  and \<open>exists\<close> raise for no entry. An entry whose \<open>modal.json\<close> exists and cannot be
  opened or parsed (invalid JSON, or any other exception of \<open>open\<close> and
  \<open>json.load\<close>) changes nothing but the log: the load returns a registry, the same
  one as for the listing without that entry; the entry's name is not a key, its error
  line is logged, and every other valid entry of the listing is a key with its own
  document.
\<close>

theorem malformed_document_is_skipped:
  assumes bad: "modal_json b = Inr (Some (ReadFails x))"
    and dir: "entry_is_dir b = Inr True" "\<not> hidden_name (entry_name b)"
    and stat: "list_all stat_ok (xs @ ys)"
    and names: "distinct (map entry_name (xs @ b # ys))"
  shows "\<exists>reg.
         fst (load_actions lib
                \<lparr>actions_dir = dir, dir_exists = Inr True, listing = Inr (xs @ b # ys)\<rparr>) = Inr reg
       \<and> fst (load_actions lib
                \<lparr>actions_dir = dir, dir_exists = Inr True, listing = Inr (xs @ ys)\<rparr>) = Inr reg
       \<and> map_of reg (entry_name b) = None
       \<and> read_error_line dir b x
            \<in> set (snd (load_actions lib
                 \<lparr>actions_dir = dir, dir_exists = Inr True, listing = Inr (xs @ b # ys)\<rparr>))
       \<and> (\<forall>e \<in> set (xs @ ys). \<forall>d.
             entry_is_dir e = Inr True \<and> \<not> hidden_name (entry_name e)
               \<and> modal_json e = Inr (Some (ReadOk d))
             \<longrightarrow> map_of reg (entry_name e) = Some d)"
proof -
  from stat have "list_all stat_ok xs" and ys: "list_all stat_ok ys" by simp_all
  then obtain a fx1 where first: "load_loop dir xs [] = (Inr a, fx1)"
    using load_loop_returns [of xs dir "[]"] by auto
  from ys obtain reg fx2 where rest: "load_loop dir ys a = (Inr reg, fx2)"
    using load_loop_returns [of ys dir a] by auto
  have skip: "load_entry dir b a = (Inr a, [read_error_line dir b x])"
    using dir bad by (rule load_entry_failed_read)
  have with_b: "load_loop dir (xs @ b # ys) [] = (Inr reg, fx1 @ read_error_line dir b x # fx2)"
    by (simp add: load_loop_append [of dir xs] first skip rest)
  have without: "load_loop dir (xs @ ys) [] = (Inr reg, fx1 @ fx2)"
    by (simp add: load_loop_append [of dir xs] first rest)
  have absent: "map_of reg (entry_name b) = None"
  proof -
    from names have "entry_name b \<notin> entry_name ` set (xs @ ys)" by auto
    with without have "map_of reg (entry_name b) = map_of [] (entry_name b)"
      by (rule load_loop_other_key)
    then show ?thesis by simp
  qed
  have kept: "map_of reg (entry_name e) = Some d"
    if "e \<in> set (xs @ ys)" "entry_is_dir e = Inr True" "\<not> hidden_name (entry_name e)"
       "modal_json e = Inr (Some (ReadOk d))" for e d
  proof -
    from names have "distinct (map entry_name (xs @ ys))" by simp
    with without show ?thesis using that by (rule load_loop_valid)
  qed
  have "fst (load_actions lib
          \<lparr>actions_dir = dir, dir_exists = Inr True, listing = Inr (xs @ b # ys)\<rparr>) = Inr reg"
    by (simp add: load_actions_def with_b)
  moreover have "fst (load_actions lib
          \<lparr>actions_dir = dir, dir_exists = Inr True, listing = Inr (xs @ ys)\<rparr>) = Inr reg"
    by (simp add: load_actions_def without)
  moreover have "read_error_line dir b x
      \<in> set (snd (load_actions lib
           \<lparr>actions_dir = dir, dir_exists = Inr True, listing = Inr (xs @ b # ys)\<rparr>))"
    by (simp add: load_actions_def with_b)
  ultimately show ?thesis using absent kept by blast
qed

text \<open>A directory with \<open>restart\<close>, the unparsable \<open>broken\<close> and \<open>deploy\<close>.\<close>

theorem malformed_document_is_skipped_witness:
  "modal_json broken_entry
     = Inr (Some (ReadFails
         (raise_exn JSONDecodeError ''Expecting value: line 1 column 1 (char 0)'')))
   \<and> entry_is_dir broken_entry = Inr True \<and> \<not> hidden_name (entry_name broken_entry)
   \<and> list_all stat_ok ([restart_entry] @ [deploy_entry])
   \<and> distinct (map entry_name ([restart_entry] @ broken_entry # [deploy_entry]))
   \<and> fst (load_actions sample_lib
        \<lparr>actions_dir = ''/var/task/actions'', dir_exists = Inr True,
         listing = Inr ([restart_entry] @ broken_entry # [deploy_entry])\<rparr>)
       = Inr [(''restart'', JObj [(''type'', JStr ''modal'')]),
              (''deploy'', JObj [(''type'', JStr ''modal''), (''callback_id'', JStr ''x'')])]
   \<and> fst (load_actions sample_lib
        \<lparr>actions_dir = ''/var/task/actions'', dir_exists = Inr True,
         listing = Inr ([restart_entry] @ [deploy_entry])\<rparr>)
       = Inr [(''restart'', JObj [(''type'', JStr ''modal'')]),
              (''deploy'', JObj [(''type'', JStr ''modal''), (''callback_id'', JStr ''x'')])]"
  using malformed_document_is_skipped
    [of broken_entry "raise_exn JSONDecodeError ''Expecting value: line 1 column 1 (char 0)''"
        "[restart_entry]" "[deploy_entry]" sample_lib "''/var/task/actions''"]
  by (simp add: broken_entry_def restart_entry_def deploy_entry_def load_actions_def
        load_entry_def raise_exn_def read_error_line_def stat_ok_def)

subsection \<open>The selection step\<close>

text \<open>
  Claim C3. For a registry (a dict, so its keys are distinct), \<open>open_modal\<close> sends one
  view whose select element lists \<open>action_option n\<close> for the names \<open>n\<close> in sorted
  order: the list of names is sorted, has no repetition, has exactly the keys of the
  registry as its elements, and the value of each option is its action's name.
\<close>

theorem selection_form_lists_every_action_once:
  assumes "distinct (map fst action_data)"
  shows "snd (open_modal env action_data trigger_id)
           = [ViewsOpen trigger_id (modal_view action_data)]
       \<and> select_options (modal_view action_data)
           = Some (map action_option (sort (map fst action_data)))
       \<and> sorted (sort (map fst action_data))
       \<and> distinct (sort (map fst action_data))
       \<and> set (sort (map fst action_data)) = fst ` set action_data
       \<and> length (sort (map fst action_data)) = length action_data
       \<and> (\<forall>n. get_item (action_option n) ''value'' = Inr (JStr n))"
  using assms
  by (simp add: open_modal_def call_fx_def select_options_def modal_view_def modal_options_def
        action_option_def split: option.splits)

text \<open>The loaded sample registry has \<open>restart\<close> before \<open>deploy\<close>; the form has them sorted.\<close>

theorem selection_form_lists_every_action_once_witness:
  "distinct (map fst sample_registry)
   \<and> map fst sample_registry = [''restart'', ''deploy'']
   \<and> select_options (modal_view sample_registry)
       = Some [action_option ''deploy'', action_option ''restart'']"
  using selection_form_lists_every_action_once [of sample_registry]
  by (simp add: sample_registry_value)

text \<open>
  Claim C2. When the selected action name is not a key of the registry, the selection
  handler acknowledges with \<open>response_action = "errors"\<close> on \<open>action_select_block\<close>
  and does nothing else but log; in particular \<open>start_build\<close> is not called.
\<close>

theorem unknown_selection_is_rejected:
  assumes "selected_value view = Inr (JStr s)" and "s \<notin> fst ` set action_data"
  shows "handle_initial_modal_submission lib action_data view
           = [Metric ''InitialModalSubmitted'',
              Log INFO (''Action selected: '' @ s) None,
              Log ERROR (''Invalid action selected: '' @ s) None,
              Ack [(''response_action'', JStr ''errors''),
                   (''errors'', JObj [(''action_select_block'', JStr ''Invalid action selected'')])]]
       \<and> filter is_start_build (handle_initial_modal_submission lib action_data view) = []"
  using assms
  by (simp add: handle_initial_modal_submission_def initial_try_def errors_ack_def emit_def)

text \<open>Selecting \<open>ghost\<close> when \<open>restart\<close> and \<open>deploy\<close> are loaded.\<close>

theorem unknown_selection_is_rejected_witness:
  "selected_value (selection_view ''ghost'') = Inr (JStr ''ghost'')
   \<and> ''ghost'' \<notin> fst ` set sample_registry
   \<and> handle_initial_modal_submission sample_lib sample_registry (selection_view ''ghost'')
       = [Metric ''InitialModalSubmitted'',
          Log INFO ''Action selected: ghost'' None,
          Log ERROR ''Invalid action selected: ghost'' None,
          Ack [(''response_action'', JStr ''errors''),
               (''errors'', JObj [(''action_select_block'', JStr ''Invalid action selected'')])]]"
  using unknown_selection_is_rejected
    [of "selection_view ''ghost''" "''ghost''" sample_registry sample_lib]
  by (simp add: selection_view_def selected_value_def sample_registry_value)

text \<open>The selection handler never reaches the build service, whatever it is given.\<close>

lemma initial_never_builds:
  "filter is_start_build (handle_initial_modal_submission lib action_data view) = []"
  by (auto simp: handle_initial_modal_submission_def initial_try_def errors_ack_def emit_def
        bind_fx_def pure_fx_def split: sum.splits prod.splits if_splits)

lemma map_of_registry_of:
  "map_of (registry_of action_refs h) n = map_option (\<lambda>a. h ! a) (map_of action_refs n)"
  by (induction action_refs) (auto simp: registry_of_def)

text \<open>
  Claim C10. For an action name of the registry whose template is a dict,
  \<open>create_action_modal\<close> returns a new object: the template's items with
  \<open>callback_id = "updated_modal"\<close> and \<open>private_metadata\<close> = the action name, every
  other key as stored. The stored template, and every other object of the store, is left
  as it was. The function on values computes the same result.
\<close>

theorem create_action_modal_leaves_template_unchanged:
  assumes ref: "map_of action_refs action_name = Some a"
    and live: "a < length h"
    and dict: "h ! a = JObj kvs"
  shows "outcome (create_action_modal_store action_refs h action_name) = Inr (length h)
       \<and> heap (create_action_modal_store action_refs h action_name) ! length h
           = JObj (AList.update ''private_metadata'' (JStr action_name)
                    (AList.update ''callback_id'' (JStr ''updated_modal'') kvs))
       \<and> heap (create_action_modal_store action_refs h action_name) ! a = JObj kvs
       \<and> take (length h) (heap (create_action_modal_store action_refs h action_name)) = h
       \<and> create_action_modal (registry_of action_refs h) action_name
           = Inr (heap (create_action_modal_store action_refs h action_name) ! length h)
       \<and> (\<forall>k. get_item (heap (create_action_modal_store action_refs h action_name) ! length h) k
              = (if k = ''private_metadata'' then Inr (JStr action_name)
                 else if k = ''callback_id'' then Inr (JStr ''updated_modal'')
                 else get_item (JObj kvs) k))"
  using assms
  by (simp add: create_action_modal_store_def copy_object_def set_item_def nth_append
        create_action_modal_def map_of_registry_of update_conv')

text \<open>Copying the \<open>deploy\<close> template of the sample store.\<close>

theorem create_action_modal_leaves_template_unchanged_witness:
  "map_of sample_refs ''deploy'' = Some 1
   \<and> 1 < length sample_heap
   \<and> sample_heap ! 1 = JObj [(''type'', JStr ''modal''), (''callback_id'', JStr ''x'')]
   \<and> outcome (create_action_modal_store sample_refs sample_heap ''deploy'') = Inr 2
   \<and> heap (create_action_modal_store sample_refs sample_heap ''deploy'') ! 2
       = JObj [(''type'', JStr ''modal''), (''callback_id'', JStr ''updated_modal''),
               (''private_metadata'', JStr ''deploy'')]
   \<and> heap (create_action_modal_store sample_refs sample_heap ''deploy'') ! 1
       = JObj [(''type'', JStr ''modal''), (''callback_id'', JStr ''x'')]"
  using create_action_modal_leaves_template_unchanged
    [of sample_refs "''deploy''" 1 sample_heap
        "[(''type'', JStr ''modal''), (''callback_id'', JStr ''x'')]"]
  by (simp add: sample_refs_def sample_heap_def sample_registry_value numeral_2_eq_2)

subsection \<open>The job trigger and the final step\<close>

lemma has_user_is_dict:
  assumes "get_item request_body ''user'' = Inr user"
  obtains kvs where "request_body = JObj kvs"
  using assms by (cases request_body) simp_all

lemma build_variables_ok:
  assumes "get_item request_body ''user'' = Inr user"
    and "get_item user ''id'' = Inr uid"
    and "get_item user ''name'' = Inr uname"
  shows "\<exists>t. dict_get request_body ''trigger_id'' (JStr []) = Inr t
           \<and> build_variables lib request_body = Inr (job_variables lib request_body t uid uname)"
proof -
  from assms(1) obtain kvs where rb: "request_body = JObj kvs"
    by (rule has_user_is_dict)
  then obtain t where t: "dict_get request_body ''trigger_id'' (JStr []) = Inr t"
    by (cases "map_of kvs ''trigger_id''") simp_all
  with assms show ?thesis
    by (simp add: build_variables_def job_variables_def)
qed

lemma execute_action_builds:
  assumes "build_variables lib request_body = Inr vars"
  shows "builds (snd (execute_action lib env action_name request_body))
           = [StartBuild (project_name lib env action_name) vars]"
  using assms
  by (auto simp: execute_action_def builds_def Let_def bind_fx_def pure_fx_def emit_def
        split: sum.splits prod.splits)

text \<open>
  Claim C4 as stated does not hold for every request body: the user's id and name are
  read by subscript while the arguments of \<open>start_build\<close> are built, so a body without
  \<open>user.name\<close> raises \<open>KeyError\<close> before the call and no job is started.
\<close>

theorem body_without_user_name_starts_no_job:
  "get_item nameless_body ''user'' = Inr (JObj [(''id'', JStr ''U1'')])
   \<and> execute_action sample_lib sample_bot_env (JStr ''deploy'') nameless_body
       = (Inl (raise_exn KeyError ([CHR 0x27] @ ''name'' @ [CHR 0x27])),
          [Log INFO ''Starting CodeBuild project: senora-deploy'' None])
   \<and> filter is_start_build
        (snd (execute_action sample_lib sample_bot_env (JStr ''deploy'') nameless_body)) = []"
  by (simp add: nameless_body_def execute_action_def build_variables_def project_name_def
        sample_bot_env_def Let_def)

text \<open>
  Claim C4, amended. For an action name and a request body that carries the user's id
  and name as strings, \<open>execute_action\<close> calls \<open>start_build\<close> exactly once, for the
  project named by the configured bot name (default \<open>senora\<close>), a hyphen and the action
  name. The variables it passes are, in this order, \<open>REQUEST_BODY\<close> with the string
  \<open>json.dumps(request_body)\<close>, \<open>TRIGGER_ID\<close>, \<open>USER_ID\<close> with the user's id and
  \<open>USER_NAME\<close> with the user's name, each of type \<open>PLAINTEXT\<close>.
\<close>

theorem job_trigger_call:
  assumes "get_item request_body ''user'' = Inr user"
    and "get_item user ''id'' = Inr (JStr uid)"
    and "get_item user ''name'' = Inr (JStr uname)"
  shows "\<exists>t. dict_get request_body ''trigger_id'' (JStr []) = Inr t
           \<and> filter is_start_build
                (snd (execute_action lib env (JStr action_name) request_body))
               = [StartBuild ((case bot_name env of None \<Rightarrow> ''senora'' | Some b \<Rightarrow> b)
                                @ ''-'' @ action_name)
                    [\<lparr>var_name = ''REQUEST_BODY'',
                      var_value = JStr (dumps lib request_body),
                      var_type = ''PLAINTEXT''\<rparr>,
                     \<lparr>var_name = ''TRIGGER_ID'', var_value = t, var_type = ''PLAINTEXT''\<rparr>,
                     \<lparr>var_name = ''USER_ID'', var_value = JStr uid, var_type = ''PLAINTEXT''\<rparr>,
                     \<lparr>var_name = ''USER_NAME'', var_value = JStr uname,
                      var_type = ''PLAINTEXT''\<rparr>]]"
proof -
  from build_variables_ok [OF assms, of lib] obtain t where
    t: "dict_get request_body ''trigger_id'' (JStr []) = Inr t"
    and vars: "build_variables lib request_body
                 = Inr (job_variables lib request_body t (JStr uid) (JStr uname))"
    by blast
  from execute_action_builds [OF vars, of env "JStr action_name"] t
  show ?thesis
    by (simp add: project_name_def job_variables_def plaintext_var_def builds_def)
qed

text \<open>Action \<open>deploy\<close> requested by user \<open>U1\<close> (\<open>dana\<close>).\<close>

theorem job_trigger_call_witness:
  "get_item sample_body ''user'' = Inr (JObj [(''id'', JStr ''U1''), (''name'', JStr ''dana'')])
   \<and> get_item (JObj [(''id'', JStr ''U1''), (''name'', JStr ''dana'')]) ''id'' = Inr (JStr ''U1'')
   \<and> get_item (JObj [(''id'', JStr ''U1''), (''name'', JStr ''dana'')]) ''name'' = Inr (JStr ''dana'')
   \<and> filter is_start_build
        (snd (execute_action sample_lib sample_bot_env (JStr ''deploy'') sample_body))
       = [StartBuild ''senora-deploy''
            [\<lparr>var_name = ''REQUEST_BODY'', var_value = JStr (dumps sample_lib sample_body),
              var_type = ''PLAINTEXT''\<rparr>,
             \<lparr>var_name = ''TRIGGER_ID'', var_value = JStr ''T1'', var_type = ''PLAINTEXT''\<rparr>,
             \<lparr>var_name = ''USER_ID'', var_value = JStr ''U1'', var_type = ''PLAINTEXT''\<rparr>,
             \<lparr>var_name = ''USER_NAME'', var_value = JStr ''dana'', var_type = ''PLAINTEXT''\<rparr>]]"
  using job_trigger_call [of sample_body "JObj [(''id'', JStr ''U1''), (''name'', JStr ''dana'')]"
      "''U1''" "''dana''" sample_lib sample_bot_env "''deploy''"]
  by (simp add: sample_body_def sample_bot_env_def)

lemma final_try_shape:
  assumes "get_item view ''private_metadata'' = Inr action_name"
    and "get_item req_body ''user'' = Inr user"
    and "get_item user ''id'' = Inr uid"
    and "bot_post env uid (JStr (received_text lib action_name)) = None"
  shows "final_try lib env req_body view =
     bind_fx (Inr (), [Log INFO (''Executing action: '' @ py_str lib action_name
                                   @ '' for user: '' @ py_str lib uid) None,
                       PostMessage uid None (JStr (received_text lib action_name))]) (\<lambda>_.
     bind_fx (execute_action lib env action_name req_body) (\<lambda>build_info.
     bind_fx (pure_fx (get_item build_info ''id'')) (\<lambda>build_id.
     bind_fx (post_fx env uid (running_text lib action_name build_id)) (\<lambda>_.
       emit [Metric ''ActionExecuted'', MetricMetadata ''action_name'' action_name]))))"
  using assms
  by (simp add: final_try_def post_fx_def call_fx_def)

lemma final_builds:
  assumes "get_item view ''private_metadata'' = Inr action_name"
    and "get_item req_body ''user'' = Inr user"
    and "get_item user ''id'' = Inr uid"
    and "bot_post env uid (JStr (received_text lib action_name)) = None"
  shows "builds (handle_updated_modal_submission lib env req_body view)
           = builds (snd (execute_action lib env action_name req_body))"
proof -
  obtain r fx where ex: "execute_action lib env action_name req_body = (r, fx)"
    by (cases "execute_action lib env action_name req_body")
  show ?thesis
    unfolding handle_updated_modal_submission_def final_try_shape [OF assms] ex
    using assms(2,3)
    by (cases r)
       (auto simp: post_fx_def call_fx_def emit_def pure_fx_def bind_fx_def
          split: sum.splits option.splits prod.splits)
qed

lemma final_on_trigger_failure:
  assumes "get_item view ''private_metadata'' = Inr action_name"
    and "get_item req_body ''user'' = Inr user"
    and "get_item user ''id'' = Inr uid"
    and "bot_post env uid (JStr (received_text lib action_name)) = None"
    and "build_variables lib req_body = Inr vars"
    and "start_build env (project_name lib env action_name) vars = Inl e"
  shows "handle_updated_modal_submission lib env req_body view =
     [Ack [], Metric ''FinalModalSubmitted'',
      Log INFO (''Executing action: '' @ py_str lib action_name
                  @ '' for user: '' @ py_str lib uid) None,
      PostMessage uid None (JStr (received_text lib action_name)),
      Log INFO (''Starting CodeBuild project: '' @ project_name lib env action_name) None,
      StartBuild (project_name lib env action_name) vars]
     @ (if exn_class e = ClientError
        then [Log ERROR (''Failed to start CodeBuild project: '' @ exn_str e) (Some e),
              Metric ''CodeBuildStartError'']
        else [])
     @ [Log ERROR (''Error executing action: '' @ exn_str e) (Some e),
        Metric ''ActionExecutionError'',
        PostMessage uid None (JStr (failed_text e))]"
  unfolding handle_updated_modal_submission_def final_try_shape [OF assms(1-4)]
  using assms(2,3,5,6)
  by (simp add: execute_action_def Let_def)

lemma final_on_trigger_success:
  assumes "get_item view ''private_metadata'' = Inr action_name"
    and "get_item req_body ''user'' = Inr user"
    and "get_item user ''id'' = Inr uid"
    and "bot_post env uid (JStr (received_text lib action_name)) = None"
    and "build_variables lib req_body = Inr vars"
    and "start_build env (project_name lib env action_name) vars = Inr resp"
    and "get_item resp ''build'' = Inr build_info"
    and "get_item build_info ''id'' = Inr build_id"
    and "bot_post env uid (JStr (running_text lib action_name build_id)) = None"
  shows "handle_updated_modal_submission lib env req_body view =
     [Ack [], Metric ''FinalModalSubmitted'',
      Log INFO (''Executing action: '' @ py_str lib action_name
                  @ '' for user: '' @ py_str lib uid) None,
      PostMessage uid None (JStr (received_text lib action_name)),
      Log INFO (''Starting CodeBuild project: '' @ project_name lib env action_name) None,
      StartBuild (project_name lib env action_name) vars,
      Log INFO (''Build started successfully: '' @ py_str lib build_id) None,
      PostMessage uid None (JStr (running_text lib action_name build_id)),
      Metric ''ActionExecuted'',
      MetricMetadata ''action_name'' action_name]"
  unfolding handle_updated_modal_submission_def final_try_shape [OF assms(1-4)]
  using assms(5-9)
  by (simp add: execute_action_def Let_def post_fx_def call_fx_def emit_def pure_fx_def)

text \<open>
  Claim C1 as stated does not hold: with \<open>restart\<close> and \<open>deploy\<close> loaded, a final
  submission whose private metadata is \<open>ghost\<close> starts the project \<open>senora-ghost\<close>
  and tells the user that it is running; no error is shown.
\<close>

theorem stale_token_still_triggers_job:
  "''ghost'' \<notin> fst ` set sample_registry
   \<and> get_item (final_view ''ghost'') ''private_metadata'' = Inr (JStr ''ghost'')
   \<and> builds (handle_updated_modal_submission sample_lib sample_bot_env sample_body
                (final_view ''ghost''))
       = [StartBuild ''senora-ghost''
            (job_variables sample_lib sample_body (JStr ''T1'') (JStr ''U1'') (JStr ''dana''))]
   \<and> posts (handle_updated_modal_submission sample_lib sample_bot_env sample_body
               (final_view ''ghost''))
       = [PostMessage (JStr ''U1'') None (JStr (received_text sample_lib (JStr ''ghost''))),
          PostMessage (JStr ''U1'') None
            (JStr (running_text sample_lib (JStr ''ghost'') (JStr ''senora-ghost:1'')))]"
proof -
  have vars: "build_variables sample_lib sample_body
                = Inr (job_variables sample_lib sample_body (JStr ''T1'') (JStr ''U1'') (JStr ''dana''))"
    by (simp add: build_variables_def job_variables_def sample_body_def)
  have run: "handle_updated_modal_submission sample_lib sample_bot_env sample_body
               (final_view ''ghost'')
     = [Ack [], Metric ''FinalModalSubmitted'',
        Log INFO (''Executing action: '' @ py_str sample_lib (JStr ''ghost'')
                    @ '' for user: '' @ py_str sample_lib (JStr ''U1'')) None,
        PostMessage (JStr ''U1'') None (JStr (received_text sample_lib (JStr ''ghost''))),
        Log INFO (''Starting CodeBuild project: ''
                    @ project_name sample_lib sample_bot_env (JStr ''ghost'')) None,
        StartBuild (project_name sample_lib sample_bot_env (JStr ''ghost''))
          (job_variables sample_lib sample_body (JStr ''T1'') (JStr ''U1'') (JStr ''dana'')),
        Log INFO (''Build started successfully: '' @ py_str sample_lib (JStr ''senora-ghost:1'')) None,
        PostMessage (JStr ''U1'') None
          (JStr (running_text sample_lib (JStr ''ghost'') (JStr ''senora-ghost:1''))),
        Metric ''ActionExecuted'',
        MetricMetadata ''action_name'' (JStr ''ghost'')]"
    by (rule final_on_trigger_success
          [OF _ _ _ _ vars, where user = "JObj [(''id'', JStr ''U1''), (''name'', JStr ''dana'')]"
             and build_info = "JObj [(''id'', JStr ''senora-ghost:1'')]"
             and resp = "JObj [(''build'', JObj [(''id'', JStr ''senora-ghost:1'')])]"])
       (simp_all add: final_view_def sample_body_def sample_bot_env_def project_name_def)
  show ?thesis
    unfolding run
    by (simp add: sample_registry_value final_view_def project_name_def sample_bot_env_def)
qed

text \<open>
  Claim C1, amended. The handler of the final submission does not read the registry. For
  every final submission whose body carries the user's id and name and whose receipt
  notice is delivered, the job trigger is invoked exactly once under the name built from
  the private metadata, whether or not that name is a registered action. The session
  fails (one failure notice after the receipt notice, no job handle) when that
  \<open>start_build\<close> call fails, for instance because the build service does not know the
  project.
\<close>

theorem final_submission_does_not_consult_registry:
  assumes "get_item view ''private_metadata'' = Inr (JStr token)"
    and "get_item req_body ''user'' = Inr user"
    and "get_item user ''id'' = Inr uid"
    and "get_item user ''name'' = Inr uname"
    and "bot_post env uid (JStr (received_text lib (JStr token))) = None"
  shows "\<exists>t. dict_get req_body ''trigger_id'' (JStr []) = Inr t
      \<and> builds (handle_updated_modal_submission lib env req_body view)
          = [StartBuild ((case bot_name env of None \<Rightarrow> ''senora'' | Some b \<Rightarrow> b) @ ''-'' @ token)
               (job_variables lib req_body t uid uname)]
      \<and> (\<forall>e. start_build env
                 ((case bot_name env of None \<Rightarrow> ''senora'' | Some b \<Rightarrow> b) @ ''-'' @ token)
                 (job_variables lib req_body t uid uname) = Inl e
             \<longrightarrow> posts (handle_updated_modal_submission lib env req_body view)
                   = [PostMessage uid None (JStr (received_text lib (JStr token))),
                      PostMessage uid None (JStr (failed_text e))])"
proof -
  from build_variables_ok [OF assms(2-4), of lib] obtain t where
    t: "dict_get req_body ''trigger_id'' (JStr []) = Inr t"
    and vars: "build_variables lib req_body = Inr (job_variables lib req_body t uid uname)"
    by blast
  have name: "project_name lib env (JStr token)
                = (case bot_name env of None \<Rightarrow> ''senora'' | Some b \<Rightarrow> b) @ ''-'' @ token"
    by (simp add: project_name_def)
  have one: "builds (handle_updated_modal_submission lib env req_body view)
               = [StartBuild (project_name lib env (JStr token))
                    (job_variables lib req_body t uid uname)]"
    by (simp only: final_builds [OF assms(1-3,5)] execute_action_builds [OF vars])
  have shown: "posts (handle_updated_modal_submission lib env req_body view)
                 = [PostMessage uid None (JStr (received_text lib (JStr token))),
                    PostMessage uid None (JStr (failed_text e))]"
    if "start_build env (project_name lib env (JStr token))
          (job_variables lib req_body t uid uname) = Inl e" for e
    by (simp add: final_on_trigger_failure [OF assms(1-3,5) vars that])
  from t one shown show ?thesis
    unfolding name by blast
qed

text \<open>The token \<open>ghost\<close> with a build service that does not know the project.\<close>

theorem final_submission_does_not_consult_registry_witness:
  "get_item (final_view ''ghost'') ''private_metadata'' = Inr (JStr ''ghost'')
   \<and> get_item sample_body ''user'' = Inr (JObj [(''id'', JStr ''U1''), (''name'', JStr ''dana'')])
   \<and> bot_post (failing_bot_env missing_project_error) (JStr ''U1'')
        (JStr (received_text sample_lib (JStr ''ghost''))) = None
   \<and> builds (handle_updated_modal_submission sample_lib (failing_bot_env missing_project_error)
                sample_body (final_view ''ghost''))
       = [StartBuild ''senora-ghost''
            (job_variables sample_lib sample_body (JStr ''T1'') (JStr ''U1'') (JStr ''dana''))]
   \<and> posts (handle_updated_modal_submission sample_lib (failing_bot_env missing_project_error)
               sample_body (final_view ''ghost''))
       = [PostMessage (JStr ''U1'') None (JStr (received_text sample_lib (JStr ''ghost''))),
          PostMessage (JStr ''U1'') None (JStr (failed_text missing_project_error))]"
  using final_submission_does_not_consult_registry
    [of "final_view ''ghost''" "''ghost''" sample_body
        "JObj [(''id'', JStr ''U1''), (''name'', JStr ''dana'')]" "JStr ''U1''" "JStr ''dana''"
        "failing_bot_env missing_project_error" sample_lib]
  by (simp add: final_view_def sample_body_def failing_bot_env_def)

text \<open>
  Claim C5 as stated does not hold: the failure notice is not generic. It carries
  \<open>str(e)\<close> in full, the same text that the log line carries (here an access-denied
  error with account and role), and two different errors give two different notices.
\<close>

theorem failure_notice_carries_error_text:
  "posts (handle_updated_modal_submission sample_lib (failing_bot_env denied_error)
            sample_body (final_view ''deploy''))
     = [PostMessage (JStr ''U1'') None (JStr (received_text sample_lib (JStr ''deploy''))),
        PostMessage (JStr ''U1'') None
          (JStr (cross_mark @ '' Failed to execute action: '' @ exn_str denied_error
                   @ [CHR 0x0A] @ ''Please contact support if this continues.''))]
   \<and> exn_str denied_error
       = ''An error occurred (AccessDeniedException) when calling the StartBuild operation: User: arn:aws:sts::123456789012:assumed-role/senora-bot/senora is not authorized to perform: codebuild:StartBuild''
   \<and> Log ERROR (''Error executing action: '' @ exn_str denied_error) (Some denied_error)
       \<in> set (handle_updated_modal_submission sample_lib (failing_bot_env denied_error)
                 sample_body (final_view ''deploy''))
   \<and> posts (handle_updated_modal_submission sample_lib (failing_bot_env missing_project_error)
               sample_body (final_view ''deploy''))
       \<noteq> posts (handle_updated_modal_submission sample_lib (failing_bot_env denied_error)
                  sample_body (final_view ''deploy''))"
proof -
  have vars: "build_variables sample_lib sample_body
                = Inr (job_variables sample_lib sample_body (JStr ''T1'') (JStr ''U1'') (JStr ''dana''))"
    by (simp add: build_variables_def job_variables_def sample_body_def)
  have run: "handle_updated_modal_submission sample_lib (failing_bot_env e) sample_body
               (final_view ''deploy'')
     = [Ack [], Metric ''FinalModalSubmitted'',
        Log INFO (''Executing action: '' @ py_str sample_lib (JStr ''deploy'')
                    @ '' for user: '' @ py_str sample_lib (JStr ''U1'')) None,
        PostMessage (JStr ''U1'') None (JStr (received_text sample_lib (JStr ''deploy''))),
        Log INFO (''Starting CodeBuild project: ''
                    @ project_name sample_lib (failing_bot_env e) (JStr ''deploy'')) None,
        StartBuild (project_name sample_lib (failing_bot_env e) (JStr ''deploy''))
          (job_variables sample_lib sample_body (JStr ''T1'') (JStr ''U1'') (JStr ''dana''))]
       @ (if exn_class e = ClientError
          then [Log ERROR (''Failed to start CodeBuild project: '' @ exn_str e) (Some e),
                Metric ''CodeBuildStartError'']
          else [])
       @ [Log ERROR (''Error executing action: '' @ exn_str e) (Some e),
          Metric ''ActionExecutionError'',
          PostMessage (JStr ''U1'') None (JStr (failed_text e))]" for e
    by (rule final_on_trigger_failure
          [OF _ _ _ _ vars, where user = "JObj [(''id'', JStr ''U1''), (''name'', JStr ''dana'')]"])
       (simp_all add: final_view_def sample_body_def failing_bot_env_def)
  have differ: "failed_text missing_project_error \<noteq> failed_text denied_error"
    by (simp add: failed_text_def missing_project_error_def denied_error_def)
  show ?thesis
    unfolding run using differ
    by (simp add: failed_text_def) (simp add: denied_error_def)
qed

text \<open>
  Claim C5, amended. When the \<open>start_build\<close> call of a final submission fails with
  \<open>e\<close>, the user is sent exactly two messages: the receipt notice and one failure
  notice, a fixed text around \<open>str(e)\<close>. The exception with its traceback goes to the
  log only. \<open>start_build\<close> is tried once, and no message with a build id is sent.
\<close>

theorem job_trigger_failure_notice:
  assumes "get_item view ''private_metadata'' = Inr action_name"
    and "get_item req_body ''user'' = Inr user"
    and "get_item user ''id'' = Inr uid"
    and "bot_post env uid (JStr (received_text lib action_name)) = None"
    and "build_variables lib req_body = Inr vars"
    and "start_build env (project_name lib env action_name) vars = Inl e"
  shows "posts (handle_updated_modal_submission lib env req_body view)
           = [PostMessage uid None (JStr (received_text lib action_name)),
              PostMessage uid None
                (JStr (cross_mark @ '' Failed to execute action: '' @ exn_str e
                         @ [CHR 0x0A] @ ''Please contact support if this continues.''))]
       \<and> Log ERROR (''Error executing action: '' @ exn_str e) (Some e)
           \<in> set (handle_updated_modal_submission lib env req_body view)
       \<and> builds (handle_updated_modal_submission lib env req_body view)
           = [StartBuild (project_name lib env action_name) vars]
       \<and> (\<forall>b. PostMessage uid None (JStr (running_text lib action_name b))
               \<notin> set (handle_updated_modal_submission lib env req_body view))"
  unfolding final_on_trigger_failure [OF assms]
  by (simp add: failed_text_def running_text_def received_text_def rocket_def check_mark_def
        cross_mark_def)

text \<open>Action \<open>deploy\<close> with a build service that does not know the project.\<close>

theorem job_trigger_failure_notice_witness:
  "get_item (final_view ''deploy'') ''private_metadata'' = Inr (JStr ''deploy'')
   \<and> build_variables sample_lib sample_body
       = Inr (job_variables sample_lib sample_body (JStr ''T1'') (JStr ''U1'') (JStr ''dana''))
   \<and> start_build (failing_bot_env missing_project_error)
        (project_name sample_lib (failing_bot_env missing_project_error) (JStr ''deploy''))
        (job_variables sample_lib sample_body (JStr ''T1'') (JStr ''U1'') (JStr ''dana''))
       = Inl missing_project_error
   \<and> posts (handle_updated_modal_submission sample_lib (failing_bot_env missing_project_error)
               sample_body (final_view ''deploy''))
       = [PostMessage (JStr ''U1'') None (JStr (received_text sample_lib (JStr ''deploy''))),
          PostMessage (JStr ''U1'') None
            (JStr (cross_mark @ '' Failed to execute action: '' @ exn_str missing_project_error
                     @ [CHR 0x0A] @ ''Please contact support if this continues.''))]"
  using job_trigger_failure_notice
    [of "final_view ''deploy''" "JStr ''deploy''" sample_body
        "JObj [(''id'', JStr ''U1''), (''name'', JStr ''dana'')]" "JStr ''U1''"
        "failing_bot_env missing_project_error" sample_lib
        "job_variables sample_lib sample_body (JStr ''T1'') (JStr ''U1'') (JStr ''dana'')"
        missing_project_error]
  by (simp add: final_view_def sample_body_def failing_bot_env_def build_variables_def
        job_variables_def)

end
